theory Spec2Isabelle
  imports Main
begin

section \<open>JavaScript values\<close>

text \<open>
  The plugin of \<^verbatim>\<open>src/index.js\<close> works on untyped configuration data, so the model
  has one type of JavaScript values. Strings are lists of characters, one \<open>char\<close> per code
  unit (code units below 256). Numbers are the integers; the program observes a number only
  through its truthiness, \<^verbatim>\<open>typeof\<close>, strict comparison with 400 and its decimal rendering.
  An object is the list of its own properties in the order \<^verbatim>\<open>Object.entries\<close> walks them;
  the first pair for a key is the property. None of the property names the program reads
  is a member of \<^verbatim>\<open>Object.prototype\<close>, so reading a property is reading an own
  property. Where the program assigns to a computed key of an object that it serialises
  (line 98), the assignment is modelled with the \<^verbatim>\<open>__proto__\<close> accessor and with the
  order of enumeration (\<open>obj_set\<close> below).
\<close>

datatype js_value =
    JUndefined
  | JNull
  | JBool bool
  | JNum int
  | JStr string
  | JArr "js_value list"
  | JObj "(string \<times> js_value) list"

text \<open>
  What the program can throw. \<open>ServerlessError\<close> is the host's error class,
  \<^verbatim>\<open>new this.serverless.classes.Error(message)\<close>, kept with the argument it was built
  from; \<open>Error\<close> is the plain \<^verbatim>\<open>Error(message)\<close>. The wording of a
  \<open>ReferenceError\<close> or \<open>TypeError\<close> message is the engine's.
\<close>

datatype js_error =
    ReferenceError string
  | TypeError string
  | ServerlessError js_value
  | Error string

definition truthy :: "js_value \<Rightarrow> bool" where
  "truthy v = (case v of
       JUndefined \<Rightarrow> False
     | JNull \<Rightarrow> False
     | JBool b \<Rightarrow> b
     | JNum n \<Rightarrow> n \<noteq> 0
     | JStr s \<Rightarrow> s \<noteq> []
     | JArr _ \<Rightarrow> True
     | JObj _ \<Rightarrow> True)"

definition typeof :: "js_value \<Rightarrow> string" where
  "typeof v = (case v of
       JUndefined \<Rightarrow> ''undefined''
     | JNull \<Rightarrow> ''object''
     | JBool _ \<Rightarrow> ''boolean''
     | JNum _ \<Rightarrow> ''number''
     | JStr _ \<Rightarrow> ''string''
     | JArr _ \<Rightarrow> ''object''
     | JObj _ \<Rightarrow> ''object'')"

definition isArray :: "js_value \<Rightarrow> bool" where
  "isArray v = (case v of JArr _ \<Rightarrow> True | _ \<Rightarrow> False)"

definition nullish :: "js_value \<Rightarrow> bool" where
  "nullish v = (v = JUndefined \<or> v = JNull)"

subsection \<open>Conversion to string\<close>

fun show_nat :: "nat \<Rightarrow> string" where
  "show_nat n =
     (if n < 10 then [''0123456789'' ! n]
      else show_nat (n div 10) @ [''0123456789'' ! (n mod 10)])"

declare show_nat.simps [simp del]

fun join_commas :: "string list \<Rightarrow> string" where
  "join_commas [] = []"
| "join_commas [s] = s"
| "join_commas (s # t # ss) = s @ CHR '','' # join_commas (t # ss)"

text \<open>
  \<open>ToString\<close> is what a template literal and a computed property key apply to a value:
  an integer is written in decimal (as JavaScript does below \<open>10\<^sup>2\<^sup>1\<close>), an array
  joins its elements with commas (\<^verbatim>\<open>null\<close> and \<^verbatim>\<open>undefined\<close> elements as the
  empty string), a plain object is \<^verbatim>\<open>[object Object]\<close>.
\<close>

fun ToString :: "js_value \<Rightarrow> string" where
  "ToString JUndefined = ''undefined''"
| "ToString JNull = ''null''"
| "ToString (JBool b) = (if b then ''true'' else ''false'')"
| "ToString (JNum n) = (if n < 0 then CHR ''-'' # show_nat (nat (- n)) else show_nat (nat n))"
| "ToString (JStr s) = s"
| "ToString (JArr xs) =
     join_commas (map (\<lambda>x. if x = JUndefined \<or> x = JNull then [] else ToString x) xs)"
| "ToString (JObj ps) = ''[object Object]''"

subsection \<open>Property access\<close>

text \<open>
  \<open>prop_of v k\<close> is \<^verbatim>\<open>v[k]\<close> for a value that is neither \<^verbatim>\<open>null\<close> nor
  \<^verbatim>\<open>undefined\<close>: the own property of an object, \<^verbatim>\<open>undefined\<close> otherwise.
  \<open>get_prop\<close> adds the \<open>TypeError\<close> that reading a property of \<^verbatim>\<open>null\<close> or
  \<^verbatim>\<open>undefined\<close> throws.
\<close>

definition prop_of :: "js_value \<Rightarrow> string \<Rightarrow> js_value" where
  "prop_of v k = (case v of
       JObj ps \<Rightarrow> (case map_of ps k of Some x \<Rightarrow> x | None \<Rightarrow> JUndefined)
     | _ \<Rightarrow> JUndefined)"

definition get_prop :: "js_value \<Rightarrow> string \<Rightarrow> js_error + js_value" where
  "get_prop v k =
     (if nullish v
      then Inl (TypeError (''Cannot read properties of '' @ ToString v @ '' (reading '' @ k @ '')''))
      else Inr (prop_of v k))"

text \<open>
  \<^verbatim>\<open>obj[k] = v\<close> on a plain object, as the list of own properties sees it.

  The key \<^verbatim>\<open>__proto__\<close> is the accessor that every plain object inherits from
  \<^verbatim>\<open>Object.prototype\<close>: assigning to it changes the prototype of the object (or
  nothing, when the value is not an object) and creates no own property, so the list is
  unchanged.

  Any other key defines an own property. An existing property keeps its place. A new one
  takes its place in the order in which JavaScript enumerates own properties (and in
  which \<^verbatim>\<open>JSON.stringify\<close> writes them): first the array indices, which are the
  canonical decimal strings of the numbers below \<open>2\<^sup>3\<^sup>2 - 1\<close>, in ascending order, then
  the other keys in the order of their creation.
\<close>

definition digit_of :: "char \<Rightarrow> int option" where
  "digit_of c =
     map_of [(CHR ''0'', 0), (CHR ''1'', 1), (CHR ''2'', 2), (CHR ''3'', 3), (CHR ''4'', 4),
             (CHR ''5'', 5), (CHR ''6'', 6), (CHR ''7'', 7), (CHR ''8'', 8), (CHR ''9'', 9)] c"

fun decimal_value :: "string \<Rightarrow> int \<Rightarrow> int option" where
  "decimal_value [] acc = Some acc"
| "decimal_value (c # cs) acc =
     (case digit_of c of
        None \<Rightarrow> None
      | Some d \<Rightarrow> decimal_value cs (10 * acc + d))"

definition array_index :: "string \<Rightarrow> int option" where
  "array_index k =
     (case k of
        [] \<Rightarrow> None
      | c # cs \<Rightarrow>
          if c = CHR ''0'' \<and> cs \<noteq> [] then None
          else (case decimal_value k 0 of
                  None \<Rightarrow> None
                | Some n \<Rightarrow> if n < 4294967295 then Some n else None))"

text \<open>Whether a new key \<open>k\<close> is enumerated before the existing key \<open>k'\<close>.\<close>

definition enumerated_before :: "string \<Rightarrow> string \<Rightarrow> bool" where
  "enumerated_before k k' =
     (case array_index k of
        None \<Rightarrow> False
      | Some n \<Rightarrow> (case array_index k' of None \<Rightarrow> True | Some m \<Rightarrow> n < m))"

fun replace_own :: "string \<Rightarrow> js_value \<Rightarrow> (string \<times> js_value) list \<Rightarrow> (string \<times> js_value) list" where
  "replace_own k v [] = []"
| "replace_own k v ((k', v') # ps) =
     (if k' = k then (k, v) # ps else (k', v') # replace_own k v ps)"

fun insert_own :: "string \<Rightarrow> js_value \<Rightarrow> (string \<times> js_value) list \<Rightarrow> (string \<times> js_value) list" where
  "insert_own k v [] = [(k, v)]"
| "insert_own k v ((k', v') # ps) =
     (if enumerated_before k k' then (k, v) # (k', v') # ps
      else (k', v') # insert_own k v ps)"

definition obj_set :: "string \<Rightarrow> js_value \<Rightarrow> (string \<times> js_value) list \<Rightarrow> (string \<times> js_value) list" where
  "obj_set k v ps =
     (if k = ''__proto__'' then ps
      else if map_of ps k \<noteq> None then replace_own k v ps
      else insert_own k v ps)"

text \<open>
  \<open>error_object e\<close> is a thrown error as a \<^verbatim>\<open>catch\<close> handler sees it: an object with
  a \<^verbatim>\<open>message\<close> and no \<^verbatim>\<open>statusCode\<close>.
\<close>

definition error_object :: "js_error \<Rightarrow> js_value" where
  "error_object e = (case e of
       ReferenceError m \<Rightarrow> JObj [(''message'', JStr m)]
     | TypeError m \<Rightarrow> JObj [(''message'', JStr m)]
     | ServerlessError m \<Rightarrow> JObj [(''message'', m)]
     | Error m \<Rightarrow> JObj [(''message'', JStr m)])"

section \<open>CLI parameters: \<^verbatim>\<open>readParams\<close>\<close>

text \<open>
  \<^verbatim>\<open>const optionsParamsRegex = /(?<key>[^=]+)=(?<value>.+)/;\<close>
  The dot matches every character except a line terminator. \<^verbatim>\<open>trimEnd\<close> removes
  trailing white space and line terminators.
\<close>

definition is_line_terminator :: "char \<Rightarrow> bool" where
  "is_line_terminator c = (c = CHR 0x0A \<or> c = CHR 0x0D)"

definition is_white_space :: "char \<Rightarrow> bool" where
  "is_white_space c =
     (c = CHR 0x09 \<or> c = CHR 0x0A \<or> c = CHR 0x0B \<or> c = CHR 0x0C \<or> c = CHR 0x0D
      \<or> c = CHR 0x20 \<or> c = CHR 0xA0)"

definition trimEnd :: "string \<Rightarrow> string" where
  "trimEnd s = rev (dropWhile is_white_space (rev s))"

text \<open>
  \<^verbatim>\<open>item.split(",")\<close>: the pieces between the commas; a string without a comma is one
  piece, the empty string too.
\<close>

fun split_on :: "char \<Rightarrow> string \<Rightarrow> string list" where
  "split_on d [] = [Nil]"
| "split_on d (c # cs) =
     (if c = d then [] # split_on d cs
      else (case split_on d cs of
              [] \<Rightarrow> [c # []]
            | p # ps \<Rightarrow> (c # p) # ps))"

text \<open>
  The regular expression tried at the start of \<open>s\<close>. The key group is greedy: it takes
  the whole run of characters other than \<open>=\<close>, and giving characters back cannot help,
  since the next character has to be \<open>=\<close>. So the attempt succeeds when the run is not
  empty, an \<open>=\<close> follows it, and at least one character that is not a line terminator
  follows the \<open>=\<close>; the value group takes all of them up to the first line terminator.
\<close>

definition optionsParamsRegex_at :: "string \<Rightarrow> (string \<times> string) option" where
  "optionsParamsRegex_at s =
     (let key = takeWhile (\<lambda>c. c \<noteq> CHR ''='') s;
          rest = dropWhile (\<lambda>c. c \<noteq> CHR ''='') s
      in if key = [] then None
         else (case rest of
                 [] \<Rightarrow> None
               | eq # after \<Rightarrow>
                   (let v = takeWhile (\<lambda>c. \<not> is_line_terminator c) after
                    in if v = [] then None else Some (key, v))))"

text \<open>
  \<^verbatim>\<open>splitted.match(optionsParamsRegex)\<close>: the expression is not anchored, so the
  attempt is made at every position from the left and the first success is the match;
  \<open>None\<close> is the \<^verbatim>\<open>null\<close> of no match. The result is the pair of the groups
  \<^verbatim>\<open>key\<close> and \<^verbatim>\<open>value\<close>.
\<close>

fun optionsParamsRegex_match :: "string \<Rightarrow> (string \<times> string) option" where
  "optionsParamsRegex_match [] = None"
| "optionsParamsRegex_match (c # cs) =
     (case optionsParamsRegex_at (c # cs) of
        Some g \<Rightarrow> Some g
      | None \<Rightarrow> optionsParamsRegex_match cs)"

record cli_param =
  param_value :: string
  param_type :: string

text \<open>
  The inner loop of \<^verbatim>\<open>readParams\<close>, over the pieces of one item. Reading
  \<^verbatim>\<open>res.groups\<close> when \<^verbatim>\<open>res\<close> is \<^verbatim>\<open>null\<close> throws. The table
  \<^verbatim>\<open>resultParams\<close> is the map from a key to what was last assigned under it, which
  is what \<^verbatim>\<open>resultParams[key]\<close> reads back for the keys that were assigned (also for
  \<^verbatim>\<open>__proto__\<close>, where the assigned object becomes the prototype and is read back
  through the accessor); the program reads the table at \<^verbatim>\<open>secret-baker-cleanup\<close>
  only.
\<close>

fun readParams_pieces ::
  "string list \<Rightarrow> (string \<rightharpoonup> cli_param) \<Rightarrow> js_error + (string \<rightharpoonup> cli_param)" where
  "readParams_pieces [] resultParams = Inr resultParams"
| "readParams_pieces (splitted # rest) resultParams =
     (case optionsParamsRegex_match splitted of
        None \<Rightarrow> Inl (TypeError ''Cannot read properties of null (reading 'groups')'')
      | Some (key, val) \<Rightarrow>
          readParams_pieces rest
            (resultParams(key \<mapsto> \<lparr>param_value = trimEnd val, param_type = ''cli''\<rparr>)))"

fun readParams_items ::
  "string list \<Rightarrow> (string \<rightharpoonup> cli_param) \<Rightarrow> js_error + (string \<rightharpoonup> cli_param)" where
  "readParams_items [] resultParams = Inr resultParams"
| "readParams_items (item # items) resultParams =
     (case readParams_pieces (split_on CHR '','' item) resultParams of
        Inl e \<Rightarrow> Inl e
      | Inr resultParams' \<Rightarrow> readParams_items items resultParams')"

definition readParams :: "string list \<Rightarrow> js_error + (string \<rightharpoonup> cli_param)" where
  "readParams params = readParams_items params Map.empty"

section \<open>The plugin and the world it runs in\<close>

text \<open>
  One request through the host's provider layer,
  \<^verbatim>\<open>getProvider("aws").request(service, operation, params, options)\<close>, and how its
  promise settles: fulfilled with a response or rejected with a reason.
\<close>

record request =
  service :: string
  operation :: string
  Name :: js_value
  WithDecryption :: bool
  useCache :: bool

datatype outcome = Resolved js_value | Rejected js_value

text \<open>
  The file on disk holds the text \<^verbatim>\<open>JSON.stringify(secrets)\<close>; the model keeps the
  value that was serialised.
\<close>

datatype file_content = JSON_stringify js_value

datatype handler = PackageSecrets | CleanupPackageSecrets

text \<open>
  What the plugin reads and changes outside itself:
  \<^item> \<open>service_custom\<close> is \<^verbatim>\<open>this.serverless.service.custom\<close>;
  \<^item> \<open>global_custom\<close> is the binding of the free identifier \<^verbatim>\<open>custom\<close> that lines
    60 and 61 of the source read: the module declares no such variable, so the lookup goes
    to the global scope, and \<open>None\<close> (no such global, as in a plain Node process) makes
    the read throw a \<open>ReferenceError\<close>;
  \<^item> \<open>aws_request\<close> is the backend seen through the provider layer, a function of the
    request (the request cache answers a repeated request alike);
  \<^item> \<open>package_include\<close> is \<^verbatim>\<open>this.serverless.service.package.include\<close>,
    \<open>None\<close> when the property is missing;
  \<^item> \<open>cli_log\<close> collects the messages of \<^verbatim>\<open>this.serverless.cli.log\<close>;
  \<^item> \<open>requests\<close> collects the requests sent, in order;
  \<^item> \<open>files\<close> is the disk, from the path as the program gives it to the content; a
    write or a removal that the program asks for takes place.
\<close>

record world =
  service_custom :: js_value
  global_custom :: "js_value option"
  aws_request :: "request \<Rightarrow> outcome"
  package_include :: "js_value list option"
  cli_log :: "string list"
  requests :: "request list"
  files :: "js_value \<rightharpoonup> file_content"

text \<open>The instance: the world through \<^verbatim>\<open>this.serverless\<close> and the fields of \<^verbatim>\<open>this\<close>.\<close>

record plugin = world +
  hooks :: "(string \<times> handler) list"
  options :: "string list option"
  secretsFile :: js_value

definition defaultSecretsFile :: string where
  "defaultSecretsFile = ''secret-baker-secrets.json''"

subsection \<open>The constructor\<close>

definition pkgHooks :: "(string \<times> handler) list" where
  "pkgHooks =
     [(''before:package:createDeploymentArtifacts'', PackageSecrets),
      (''before:deploy:function:packageFunction'', PackageSecrets),
      (''before:offline:start'', PackageSecrets),
      (''before:invoke:local:invoke'', PackageSecrets)]"

definition cleanupHooks :: "(string \<times> handler) list" where
  "cleanupHooks =
     [(''after:package:createDeploymentArtifacts'', CleanupPackageSecrets),
      (''after:deploy:function:packageFunction'', CleanupPackageSecrets),
      (''before:offline:start:end'', CleanupPackageSecrets),
      (''after:invoke:local:invoke'', CleanupPackageSecrets)]"

text \<open>
  \<open>opts\<close> is \<^verbatim>\<open>options.param\<close>, \<open>None\<close> when the options have none. An entry of
  the parameter table is an object, so \<^verbatim>\<open>!params["secret-baker-cleanup"]\<close> is true
  exactly when the table has no such key.
\<close>

definition constructor :: "world \<Rightarrow> string list option \<Rightarrow> js_error + plugin" where
  "constructor serverless opts =
     (case readParams (case opts of None \<Rightarrow> [] | Some ps \<Rightarrow> ps) of
        Inl e \<Rightarrow> Inl e
      | Inr params \<Rightarrow>
          (let shouldCleanup = (params ''secret-baker-cleanup'' = None)
           in Inr \<lparr>service_custom = service_custom serverless,
                   global_custom = global_custom serverless,
                   aws_request = aws_request serverless,
                   package_include = package_include serverless,
                   cli_log = cli_log serverless,
                   requests = requests serverless,
                   files = files serverless,
                   hooks = (if shouldCleanup then pkgHooks @ cleanupHooks else pkgHooks),
                   options = opts,
                   secretsFile = JStr defaultSecretsFile\<rparr>))"

subsection \<open>\<^verbatim>\<open>getSecretsConfig\<close>\<close>

text \<open>
  Lines 60 and 61 are the same expression up to the last property name:
  \<^verbatim>\<open>this.serverless.service.custom && this.serverless.service.custom.secretBaker
    && custom.secretBaker.<field>\<close>.
  \<^verbatim>\<open>a && b\<close> is \<^verbatim>\<open>a\<close> when \<^verbatim>\<open>a\<close> is falsy and \<^verbatim>\<open>b\<close> otherwise. The third
  operand reads the free identifier \<^verbatim>\<open>custom\<close>, not the service's block.
\<close>

definition secretBaker_field :: "plugin \<Rightarrow> string \<Rightarrow> js_error + js_value" where
  "secretBaker_field this field =
     (if \<not> truthy (service_custom this) then Inr (service_custom this)
      else (case get_prop (service_custom this) ''secretBaker'' of
              Inl e \<Rightarrow> Inl e
            | Inr sb \<Rightarrow>
                if \<not> truthy sb then Inr sb
                else (case global_custom this of
                        None \<Rightarrow> Inl (ReferenceError ''custom is not defined'')
                      | Some custom \<Rightarrow>
                          (case get_prop custom ''secretBaker'' of
                             Inl e \<Rightarrow> Inl e
                           | Inr csb \<Rightarrow> get_prop csb field))))"

text \<open>
  Lines 64 to 83: the shape of \<^verbatim>\<open>secrets\<close> decides. An element of an array that is a
  string becomes \<^verbatim>\<open>{name: item, path: item}\<close>, any other element is returned as it is.
  An object gives one \<^verbatim>\<open>{name, path}\<close> for each pair of \<^verbatim>\<open>Object.entries\<close>.
  \<^verbatim>\<open>typeof null\<close> is \<^verbatim>\<open>'object'\<close> too, and \<^verbatim>\<open>Object.entries(null)\<close> throws.
\<close>

definition normalize_secrets :: "js_value \<Rightarrow> js_error + js_value list" where
  "normalize_secrets secrets =
     (case secrets of
        JArr items \<Rightarrow>
          Inr (map (\<lambda>item. if typeof item = ''string''
                            then JObj [(''name'', item), (''path'', item)]
                            else item) items)
      | JObj entries \<Rightarrow>
          Inr (map (\<lambda>(name, path). JObj [(''name'', JStr name), (''path'', path)]) entries)
      | JNull \<Rightarrow> Inl (TypeError ''Cannot convert undefined or null to object'')
      | _ \<Rightarrow> Inl (ServerlessError
                    (JStr ''Secret Baker configuration contained an unexpected value.'')))"

text \<open>
  The whole method: line 60 (\<^verbatim>\<open>... || []\<close>), line 61 (\<^verbatim>\<open>... || undefined\<close>),
  line 62 (the assignment to \<^verbatim>\<open>this.secretsFile\<close>), then the normalisation. An
  exception on line 60 or 61 leaves \<^verbatim>\<open>this.secretsFile\<close> as it was.
\<close>

definition getSecretsConfig :: "plugin \<Rightarrow> (js_error + js_value list) \<times> plugin" where
  "getSecretsConfig this =
     (case secretBaker_field this ''secrets'' of
        Inl e \<Rightarrow> (Inl e, this)
      | Inr s \<Rightarrow>
          (let secrets = (if truthy s then s else JArr [])
           in case secretBaker_field this ''filePath'' of
                Inl e \<Rightarrow> (Inl e, this)
              | Inr f \<Rightarrow>
                  (let customSecretsFile = (if truthy f then f else JUndefined);
                       this' = this\<lparr>secretsFile :=
                                 (if truthy customSecretsFile then customSecretsFile
                                  else secretsFile this)\<rparr>
                   in (normalize_secrets secrets, this'))))"

subsection \<open>\<^verbatim>\<open>getParameterFromSsm\<close>\<close>

definition ssm_request :: "js_value \<Rightarrow> request" where
  "ssm_request name =
     \<lparr>service = ''SSM'', operation = ''getParameter'', Name = name,
      WithDecryption = False, useCache = True\<rparr>"

text \<open>
  The \<^verbatim>\<open>catch\<close> handler: \<^verbatim>\<open>err.statusCode !== 400\<close> rejects with the host's error
  built from \<^verbatim>\<open>err.message\<close>, a status of 400 resolves with \<^verbatim>\<open>undefined\<close>.
\<close>

definition ssm_catch :: "js_value \<Rightarrow> js_error + js_value" where
  "ssm_catch err =
     (case get_prop err ''statusCode'' of
        Inl e \<Rightarrow> Inl e
      | Inr statusCode \<Rightarrow>
          if statusCode \<noteq> JNum 400
          then (case get_prop err ''message'' of
                  Inl e \<Rightarrow> Inl e
                | Inr message \<Rightarrow> Inl (ServerlessError message))
          else Inr JUndefined)"

text \<open>
  How the promise chain settles for one outcome of the request. An exception in the
  \<^verbatim>\<open>then\<close> callback (the response has no properties to read) rejects the promise, and
  the \<^verbatim>\<open>catch\<close> handler that follows receives it.
\<close>

definition ssm_settle :: "outcome \<Rightarrow> js_error + js_value" where
  "ssm_settle out =
     (case out of
        Resolved response \<Rightarrow>
          (case get_prop response ''Parameter'' of
             Inr parameter \<Rightarrow> Inr parameter
           | Inl e \<Rightarrow> ssm_catch (error_object e))
      | Rejected err \<Rightarrow> ssm_catch err)"

definition getParameterFromSsm :: "js_value \<Rightarrow> plugin \<Rightarrow> (js_error + js_value) \<times> plugin" where
  "getParameterFromSsm name this =
     (ssm_settle (aws_request this (ssm_request name)),
      this\<lparr>requests := requests this @ [ssm_request name]\<rparr>)"

subsection \<open>\<^verbatim>\<open>writeSecretToFile\<close>\<close>

text \<open>
  The loop of lines 91 to 102, with the table \<^verbatim>\<open>secrets\<close> as accumulator. The pattern
  \<^verbatim>\<open>{name, path}\<close> reads the two properties of the element, which throws on
  \<^verbatim>\<open>null\<close> and \<^verbatim>\<open>undefined\<close>. The first exception ends the loop.
\<close>

fun load_secrets ::
  "js_value list \<Rightarrow> (string \<times> js_value) list \<Rightarrow> plugin
     \<Rightarrow> (js_error + (string \<times> js_value) list) \<times> plugin" where
  "load_secrets [] secrets this = (Inr secrets, this)"
| "load_secrets (item # rest) secrets this =
     (case get_prop item ''name'' of
        Inl e \<Rightarrow> (Inl e, this)
      | Inr name \<Rightarrow>
          (case get_prop item ''path'' of
             Inl e \<Rightarrow> (Inl e, this)
           | Inr path \<Rightarrow>
               (case getParameterFromSsm path this of
                  (Inl e, this') \<Rightarrow> (Inl e, this')
                | (Inr param, this') \<Rightarrow>
                    if \<not> truthy param
                    then (Inl (Error (''Unable to load Secret '' @ ToString name)), this')
                    else load_secrets rest
                           (obj_set (ToString name)
                              (JObj [(''ciphertext'', prop_of param ''Value''),
                                     (''arn'', prop_of param ''ARN'')])
                              secrets)
                           this')))"

definition writeSecretToFile :: "plugin \<Rightarrow> (js_error + unit) \<times> plugin" where
  "writeSecretToFile this =
     (case getSecretsConfig this of
        (Inl e, this1) \<Rightarrow> (Inl e, this1)
      | (Inr providerSecrets, this1) \<Rightarrow>
          (case load_secrets providerSecrets [] this1 of
             (Inl e, this2) \<Rightarrow> (Inl e, this2)
           | (Inr secrets, this2) \<Rightarrow>
               (Inr (),
                this2\<lparr>files := (files this2)(secretsFile this2 \<mapsto> JSON_stringify (JObj secrets))\<rparr>)))"

subsection \<open>\<^verbatim>\<open>cleanupPackageSecrets\<close> and \<^verbatim>\<open>packageSecrets\<close>\<close>

definition cleanupPackageSecrets :: "plugin \<Rightarrow> (js_error + unit) \<times> plugin" where
  "cleanupPackageSecrets this =
     (let this1 = this\<lparr>cli_log := cli_log this @ [''Cleaning up '' @ ToString (secretsFile this)]\<rparr>
      in (Inr (),
          if files this1 (secretsFile this1) \<noteq> None
          then this1\<lparr>files := (files this1)(secretsFile this1 := None)\<rparr>
          else this1))"

definition packageSecrets :: "plugin \<Rightarrow> (js_error + unit) \<times> plugin" where
  "packageSecrets this =
     (let this1 = this\<lparr>cli_log := cli_log this @ [''Serverless Secrets beginning packaging process'']\<rparr>;
          this2 = this1\<lparr>package_include :=
                    Some (case package_include this1 of None \<Rightarrow> [] | Some inc \<Rightarrow> inc)\<rparr>
      in case writeSecretToFile this2 of
           (Inl e, this3) \<Rightarrow> (Inl e, this3)
         | (Inr _, this3) \<Rightarrow>
             (case package_include this3 of
                None \<Rightarrow> (Inl (TypeError ''Cannot read properties of undefined (reading 'push')''), this3)
              | Some inc \<Rightarrow> (Inr (), this3\<lparr>package_include := Some (inc @ [secretsFile this3])\<rparr>)))"

section \<open>Notions used in the statements\<close>

subsection \<open>Splitting a pair on its first \<open>=\<close>\<close>




subsection \<open>The lookup of one declared secret\<close>






subsection \<open>Concrete runs\<close>

text \<open>
  A backend that knows the parameter \<^verbatim>\<open>DB_PASSWORD\<close>, fails with status 500 on
  \<^verbatim>\<open>BROKEN\<close> and reports every other name as not found (status 400).
\<close>

definition example_backend :: "request \<Rightarrow> outcome" where
  "example_backend r =
     (if Name r = JStr ''DB_PASSWORD''
      then Resolved (JObj [(''Parameter'',
             JObj [(''Value'', JStr ''s3cr3t''),
                   (''ARN'', JStr ''arn:aws:ssm:eu-west-1:1:parameter/DB_PASSWORD'')])])
      else if Name r = JStr ''BROKEN''
      then Rejected (JObj [(''statusCode'', JNum 500), (''message'', JStr ''Internal failure'')])
      else Rejected (JObj [(''statusCode'', JNum 400), (''message'', JStr ''ParameterNotFound'')]))"

text \<open>
  A fresh world with the service's \<^verbatim>\<open>custom\<close> block \<open>cfg\<close> and the global binding \<open>g\<close>
  of the identifier \<^verbatim>\<open>custom\<close>, and the plugin the constructor builds in it when no
  CLI parameter is given.
\<close>

definition example_world :: "js_value \<Rightarrow> js_value option \<Rightarrow> world" where
  "example_world cfg g =
     \<lparr>service_custom = cfg, global_custom = g, aws_request = example_backend,
      package_include = None, cli_log = [], requests = [], files = Map.empty\<rparr>"

definition example_plugin :: "js_value \<Rightarrow> js_value option \<Rightarrow> plugin" where
  "example_plugin cfg g =
     \<lparr>service_custom = cfg, global_custom = g, aws_request = example_backend,
      package_include = None, cli_log = [], requests = [], files = Map.empty,
      hooks = pkgHooks @ cleanupHooks, options = None,
      secretsFile = JStr defaultSecretsFile\<rparr>"

text \<open>The \<^verbatim>\<open>custom\<close> block \<^verbatim>\<open>{secretBaker: {secrets: ...}}\<close>.\<close>

definition secretBaker_config :: "js_value \<Rightarrow> js_value" where
  "secretBaker_config secrets = JObj [(''secretBaker'', JObj [(''secrets'', secrets)])]"

text \<open>The block \<^verbatim>\<open>{secretBaker: {secrets: ..., filePath: ...}}\<close>.\<close>

definition secretBaker_config_file :: "js_value \<Rightarrow> js_value \<Rightarrow> js_value" where
  "secretBaker_config_file secrets filePath =
     JObj [(''secretBaker'', JObj [(''secrets'', secrets), (''filePath'', filePath)])]"

section \<open>Basic facts about values\<close>

lemma truthy_simps [simp]:
  "truthy JUndefined = False"
  "truthy JNull = False"
  "truthy (JBool b) = b"
  "truthy (JNum n) = (n \<noteq> 0)"
  "truthy (JStr s) = (s \<noteq> [])"
  "truthy (JArr xs) = True"
  "truthy (JObj ps) = True"
  by (simp_all add: truthy_def)

lemma nullish_simps [simp]:
  "nullish JUndefined = True"
  "nullish JNull = True"
  "nullish (JBool b) = False"
  "nullish (JNum n) = False"
  "nullish (JStr s) = False"
  "nullish (JArr xs) = False"
  "nullish (JObj ps) = False"
  by (simp_all add: nullish_def)

lemma truthy_not_nullish: "truthy v \<Longrightarrow> \<not> nullish v"
  by (cases v) simp_all

lemma prop_of_JObj [simp]:
  "prop_of (JObj ps) k = (case map_of ps k of Some x \<Rightarrow> x | None \<Rightarrow> JUndefined)"
  by (simp add: prop_of_def)

lemma get_prop_not_nullish [simp]: "\<not> nullish v \<Longrightarrow> get_prop v k = Inr (prop_of v k)"
  by (simp add: get_prop_def)

section \<open>CLI parameter parsing\<close>

subsection \<open>Splitting at commas\<close>

lemma split_on_not_Nil: "split_on d s \<noteq> []"
  by (induction s) (auto split: list.splits)

lemma split_on_no_delim: "p \<in> set (split_on d s) \<Longrightarrow> d \<notin> set p"
  by (induction s arbitrary: p) (auto split: if_splits list.splits)

lemma join_commas_Cons: "ps \<noteq> [] \<Longrightarrow> join_commas ((c # p) # ps) = c # join_commas (p # ps)"
  by (cases ps) auto

lemma join_split_on: "join_commas (split_on CHR '','' s) = s"
proof (induction s)
  case Nil
  then show ?case by simp
next
  case (Cons c cs)
  obtain p ps where sp: "split_on CHR '','' cs = p # ps"
    using split_on_not_Nil [of "CHR '',''" cs] by (cases "split_on CHR '','' cs") auto
  show ?case
  proof (cases "c = CHR '',''")
    case True
    with Cons sp show ?thesis by simp
  next
    case False
    with Cons sp show ?thesis by (cases ps) auto
  qed
qed

subsection \<open>The regular expression\<close>



subsection \<open>Pieces and items\<close>








subsection \<open>Claim C9\<close>





section \<open>What each method leaves unchanged\<close>

lemma getParameterFromSsm_snd:
  "snd (getParameterFromSsm name this) = this\<lparr>requests := requests this @ [ssm_request name]\<rparr>"
  by (simp add: getParameterFromSsm_def)

lemma getParameterFromSsm_fst:
  "fst (getParameterFromSsm name this) = ssm_settle (aws_request this (ssm_request name))"
  by (simp add: getParameterFromSsm_def)

lemma getSecretsConfig_frame:
  "hooks (snd (getSecretsConfig this)) = hooks this"
  "files (snd (getSecretsConfig this)) = files this"
  "requests (snd (getSecretsConfig this)) = requests this"
  "package_include (snd (getSecretsConfig this)) = package_include this"
  "cli_log (snd (getSecretsConfig this)) = cli_log this"
  "aws_request (snd (getSecretsConfig this)) = aws_request this"
  "service_custom (snd (getSecretsConfig this)) = service_custom this"
  "global_custom (snd (getSecretsConfig this)) = global_custom this"
  by (simp_all add: getSecretsConfig_def Let_def split: sum.splits)

lemma load_secrets_frame:
  "hooks (snd (load_secrets refs acc this)) = hooks this
   \<and> files (snd (load_secrets refs acc this)) = files this
   \<and> package_include (snd (load_secrets refs acc this)) = package_include this
   \<and> cli_log (snd (load_secrets refs acc this)) = cli_log this
   \<and> secretsFile (snd (load_secrets refs acc this)) = secretsFile this
   \<and> aws_request (snd (load_secrets refs acc this)) = aws_request this"
proof (induction refs arbitrary: acc this)
  case Nil
  then show ?case by simp
next
  case (Cons item rest)
  show ?case
    by (simp add: getParameterFromSsm_def Cons.IH split: sum.splits)
qed

lemma writeSecretToFile_hooks: "hooks (snd (writeSecretToFile this)) = hooks this"
proof -
  obtain r this1 where g: "getSecretsConfig this = (r, this1)" by (cases "getSecretsConfig this")
  then have h1: "hooks this1 = hooks this" using getSecretsConfig_frame(1) [of this] by simp
  show ?thesis
  proof (cases r)
    case (Inl e)
    with g h1 show ?thesis by (simp add: writeSecretToFile_def)
  next
    case (Inr refs)
    obtain r2 this2 where l: "load_secrets refs [] this1 = (r2, this2)"
      by (cases "load_secrets refs [] this1")
    then have "hooks this2 = hooks this1" using load_secrets_frame [of refs "[]" this1] by simp
    with g Inr l h1 show ?thesis by (cases r2) (simp_all add: writeSecretToFile_def)
  qed
qed

lemma packageSecrets_hooks: "hooks (snd (packageSecrets this)) = hooks this"
proof -
  let ?this2 = "this\<lparr>cli_log := cli_log this @ [''Serverless Secrets beginning packaging process''],
                     package_include := Some (case package_include this of None \<Rightarrow> [] | Some inc \<Rightarrow> inc)\<rparr>"
  obtain r this3 where w: "writeSecretToFile ?this2 = (r, this3)"
    by (cases "writeSecretToFile ?this2")
  then have "hooks this3 = hooks this" using writeSecretToFile_hooks [of ?this2] by simp
  with w show ?thesis
    by (cases r) (simp_all add: packageSecrets_def Let_def split: option.splits)
qed

lemma cleanupPackageSecrets_hooks: "hooks (snd (cleanupPackageSecrets this)) = hooks this"
  by (simp add: cleanupPackageSecrets_def Let_def)

lemma readParams_single_examples:
  "readParams [''secret-baker-cleanup=true''] =
     Inr (Map.empty(''secret-baker-cleanup'' \<mapsto> \<lparr>param_value = ''true'', param_type = ''cli''\<rparr>))"
  "readParams [''stage=dev''] =
     Inr (Map.empty(''stage'' \<mapsto> \<lparr>param_value = ''dev'', param_type = ''cli''\<rparr>))"
  by (simp_all add: readParams_def optionsParamsRegex_at_def is_line_terminator_def trimEnd_def
        is_white_space_def)

section \<open>Cleanup hooks\<close>

text \<open>
  C7. When \<^verbatim>\<open>readParams\<close> returns a table for the CLI parameters, the constructor
  returns an instance. If the table has the key \<^verbatim>\<open>secret-baker-cleanup\<close>, the hooks
  are the four packaging hooks: no hook runs \<^verbatim>\<open>cleanupPackageSecrets\<close>, and none of
  the four cleanup events has a hook. If the table does not have the key, the hooks are
  the four packaging hooks and the four cleanup hooks: each of the events
  \<^verbatim>\<open>after:package:createDeploymentArtifacts\<close>,
  \<^verbatim>\<open>after:deploy:function:packageFunction\<close>, \<^verbatim>\<open>before:offline:start:end\<close> and
  \<^verbatim>\<open>after:invoke:local:invoke\<close> runs \<^verbatim>\<open>cleanupPackageSecrets\<close>. The methods that
  the hooks run, \<^verbatim>\<open>packageSecrets\<close> and \<^verbatim>\<open>cleanupPackageSecrets\<close>, leave the hooks
  as the constructor set them.
\<close>

theorem constructor_cleanup_hooks:
  "(\<forall>params. readParams (case opts of None \<Rightarrow> [] | Some ps \<Rightarrow> ps) = Inr params \<longrightarrow>
      (\<exists>this. constructor serverless opts = Inr this
         \<and> (params ''secret-baker-cleanup'' \<noteq> None \<longrightarrow>
               hooks this = pkgHooks
             \<and> hooks this =
                 [(''before:package:createDeploymentArtifacts'', PackageSecrets),
                  (''before:deploy:function:packageFunction'', PackageSecrets),
                  (''before:offline:start'', PackageSecrets),
                  (''before:invoke:local:invoke'', PackageSecrets)]
             \<and> CleanupPackageSecrets \<notin> snd ` set (hooks this)
             \<and> map_of (hooks this) ''after:package:createDeploymentArtifacts'' = None
             \<and> map_of (hooks this) ''after:deploy:function:packageFunction'' = None
             \<and> map_of (hooks this) ''before:offline:start:end'' = None
             \<and> map_of (hooks this) ''after:invoke:local:invoke'' = None)
         \<and> (params ''secret-baker-cleanup'' = None \<longrightarrow>
               hooks this = pkgHooks @ cleanupHooks
             \<and> hooks this =
                 [(''before:package:createDeploymentArtifacts'', PackageSecrets),
                  (''before:deploy:function:packageFunction'', PackageSecrets),
                  (''before:offline:start'', PackageSecrets),
                  (''before:invoke:local:invoke'', PackageSecrets),
                  (''after:package:createDeploymentArtifacts'', CleanupPackageSecrets),
                  (''after:deploy:function:packageFunction'', CleanupPackageSecrets),
                  (''before:offline:start:end'', CleanupPackageSecrets),
                  (''after:invoke:local:invoke'', CleanupPackageSecrets)]
             \<and> set cleanupHooks \<subseteq> set (hooks this)
             \<and> map_of (hooks this) ''after:package:createDeploymentArtifacts''
                 = Some CleanupPackageSecrets
             \<and> map_of (hooks this) ''after:deploy:function:packageFunction''
                 = Some CleanupPackageSecrets
             \<and> map_of (hooks this) ''before:offline:start:end'' = Some CleanupPackageSecrets
             \<and> map_of (hooks this) ''after:invoke:local:invoke'' = Some CleanupPackageSecrets)))
   \<and> (\<forall>this. hooks (snd (packageSecrets this)) = hooks this
             \<and> hooks (snd (cleanupPackageSecrets this)) = hooks this)"
proof (intro conjI allI impI)
  fix params
  assume r: "readParams (case opts of None \<Rightarrow> [] | Some ps \<Rightarrow> ps) = Inr params"
  let ?inst = "\<lparr>service_custom = service_custom serverless,
                 global_custom = global_custom serverless,
                 aws_request = aws_request serverless,
                 package_include = package_include serverless,
                 cli_log = cli_log serverless,
                 requests = requests serverless,
                 files = files serverless,
                 hooks = (if params ''secret-baker-cleanup'' = None
                          then pkgHooks @ cleanupHooks else pkgHooks),
                 options = opts,
                 secretsFile = JStr defaultSecretsFile\<rparr>"
  have c: "constructor serverless opts = Inr ?inst"
    by (simp add: constructor_def r Let_def)
  have present: "params ''secret-baker-cleanup'' \<noteq> None \<longrightarrow>
               hooks ?inst = pkgHooks
             \<and> hooks ?inst =
                 [(''before:package:createDeploymentArtifacts'', PackageSecrets),
                  (''before:deploy:function:packageFunction'', PackageSecrets),
                  (''before:offline:start'', PackageSecrets),
                  (''before:invoke:local:invoke'', PackageSecrets)]
             \<and> CleanupPackageSecrets \<notin> snd ` set (hooks ?inst)
             \<and> map_of (hooks ?inst) ''after:package:createDeploymentArtifacts'' = None
             \<and> map_of (hooks ?inst) ''after:deploy:function:packageFunction'' = None
             \<and> map_of (hooks ?inst) ''before:offline:start:end'' = None
             \<and> map_of (hooks ?inst) ''after:invoke:local:invoke'' = None"
    by (simp add: pkgHooks_def)
  have missing: "params ''secret-baker-cleanup'' = None \<longrightarrow>
               hooks ?inst = pkgHooks @ cleanupHooks
             \<and> hooks ?inst =
                 [(''before:package:createDeploymentArtifacts'', PackageSecrets),
                  (''before:deploy:function:packageFunction'', PackageSecrets),
                  (''before:offline:start'', PackageSecrets),
                  (''before:invoke:local:invoke'', PackageSecrets),
                  (''after:package:createDeploymentArtifacts'', CleanupPackageSecrets),
                  (''after:deploy:function:packageFunction'', CleanupPackageSecrets),
                  (''before:offline:start:end'', CleanupPackageSecrets),
                  (''after:invoke:local:invoke'', CleanupPackageSecrets)]
             \<and> set cleanupHooks \<subseteq> set (hooks ?inst)
             \<and> map_of (hooks ?inst) ''after:package:createDeploymentArtifacts''
                 = Some CleanupPackageSecrets
             \<and> map_of (hooks ?inst) ''after:deploy:function:packageFunction''
                 = Some CleanupPackageSecrets
             \<and> map_of (hooks ?inst) ''before:offline:start:end'' = Some CleanupPackageSecrets
             \<and> map_of (hooks ?inst) ''after:invoke:local:invoke'' = Some CleanupPackageSecrets"
    by (simp add: pkgHooks_def cleanupHooks_def)
  show "\<exists>this. constructor serverless opts = Inr this
         \<and> (params ''secret-baker-cleanup'' \<noteq> None \<longrightarrow>
               hooks this = pkgHooks
             \<and> hooks this =
                 [(''before:package:createDeploymentArtifacts'', PackageSecrets),
                  (''before:deploy:function:packageFunction'', PackageSecrets),
                  (''before:offline:start'', PackageSecrets),
                  (''before:invoke:local:invoke'', PackageSecrets)]
             \<and> CleanupPackageSecrets \<notin> snd ` set (hooks this)
             \<and> map_of (hooks this) ''after:package:createDeploymentArtifacts'' = None
             \<and> map_of (hooks this) ''after:deploy:function:packageFunction'' = None
             \<and> map_of (hooks this) ''before:offline:start:end'' = None
             \<and> map_of (hooks this) ''after:invoke:local:invoke'' = None)
         \<and> (params ''secret-baker-cleanup'' = None \<longrightarrow>
               hooks this = pkgHooks @ cleanupHooks
             \<and> hooks this =
                 [(''before:package:createDeploymentArtifacts'', PackageSecrets),
                  (''before:deploy:function:packageFunction'', PackageSecrets),
                  (''before:offline:start'', PackageSecrets),
                  (''before:invoke:local:invoke'', PackageSecrets),
                  (''after:package:createDeploymentArtifacts'', CleanupPackageSecrets),
                  (''after:deploy:function:packageFunction'', CleanupPackageSecrets),
                  (''before:offline:start:end'', CleanupPackageSecrets),
                  (''after:invoke:local:invoke'', CleanupPackageSecrets)]
             \<and> set cleanupHooks \<subseteq> set (hooks this)
             \<and> map_of (hooks this) ''after:package:createDeploymentArtifacts''
                 = Some CleanupPackageSecrets
             \<and> map_of (hooks this) ''after:deploy:function:packageFunction''
                 = Some CleanupPackageSecrets
             \<and> map_of (hooks this) ''before:offline:start:end'' = Some CleanupPackageSecrets
             \<and> map_of (hooks this) ''after:invoke:local:invoke'' = Some CleanupPackageSecrets)"
    by (rule exI [of _ ?inst]) (rule conjI [OF c conjI [OF present missing]])
next
  fix this
  show "hooks (snd (packageSecrets this)) = hooks this" by (rule packageSecrets_hooks)
next
  fix this
  show "hooks (snd (cleanupPackageSecrets this)) = hooks this"
    by (rule cleanupPackageSecrets_hooks)
qed

text \<open>
  Witness for C7: one run with the parameter \<^verbatim>\<open>secret-baker-cleanup=true\<close>, where no
  hook runs the cleanup, and one with the parameter \<^verbatim>\<open>stage=dev\<close>, where the four
  cleanup events run it.
\<close>

theorem constructor_cleanup_hooks_witness:
  "readParams [''secret-baker-cleanup=true''] =
     Inr (Map.empty(''secret-baker-cleanup'' \<mapsto> \<lparr>param_value = ''true'', param_type = ''cli''\<rparr>))
   \<and> (\<exists>this. constructor (example_world JUndefined None) (Some [''secret-baker-cleanup=true'']) = Inr this
         \<and> hooks this =
             [(''before:package:createDeploymentArtifacts'', PackageSecrets),
              (''before:deploy:function:packageFunction'', PackageSecrets),
              (''before:offline:start'', PackageSecrets),
              (''before:invoke:local:invoke'', PackageSecrets)]
         \<and> CleanupPackageSecrets \<notin> snd ` set (hooks this))
   \<and> readParams [''stage=dev''] = Inr (Map.empty(''stage'' \<mapsto> \<lparr>param_value = ''dev'', param_type = ''cli''\<rparr>))
   \<and> (\<exists>this. constructor (example_world JUndefined None) (Some [''stage=dev'']) = Inr this
         \<and> hooks this =
             [(''before:package:createDeploymentArtifacts'', PackageSecrets),
              (''before:deploy:function:packageFunction'', PackageSecrets),
              (''before:offline:start'', PackageSecrets),
              (''before:invoke:local:invoke'', PackageSecrets),
              (''after:package:createDeploymentArtifacts'', CleanupPackageSecrets),
              (''after:deploy:function:packageFunction'', CleanupPackageSecrets),
              (''before:offline:start:end'', CleanupPackageSecrets),
              (''after:invoke:local:invoke'', CleanupPackageSecrets)]
         \<and> map_of (hooks this) ''after:package:createDeploymentArtifacts''
             = Some CleanupPackageSecrets)"
proof -
  note r1 = readParams_single_examples(1)
  note r2 = readParams_single_examples(2)
  from constructor_cleanup_hooks [of "Some [''secret-baker-cleanup=true'']" "example_world JUndefined None"] r1
  have c1: "\<exists>this. constructor (example_world JUndefined None) (Some [''secret-baker-cleanup=true'']) = Inr this
         \<and> hooks this =
             [(''before:package:createDeploymentArtifacts'', PackageSecrets),
              (''before:deploy:function:packageFunction'', PackageSecrets),
              (''before:offline:start'', PackageSecrets),
              (''before:invoke:local:invoke'', PackageSecrets)]
         \<and> CleanupPackageSecrets \<notin> snd ` set (hooks this)"
    by auto
  from constructor_cleanup_hooks [of "Some [''stage=dev'']" "example_world JUndefined None"] r2
  have c2: "\<exists>this. constructor (example_world JUndefined None) (Some [''stage=dev'']) = Inr this
         \<and> hooks this =
             [(''before:package:createDeploymentArtifacts'', PackageSecrets),
              (''before:deploy:function:packageFunction'', PackageSecrets),
              (''before:offline:start'', PackageSecrets),
              (''before:invoke:local:invoke'', PackageSecrets),
              (''after:package:createDeploymentArtifacts'', CleanupPackageSecrets),
              (''after:deploy:function:packageFunction'', CleanupPackageSecrets),
              (''before:offline:start:end'', CleanupPackageSecrets),
              (''after:invoke:local:invoke'', CleanupPackageSecrets)]
         \<and> map_of (hooks this) ''after:package:createDeploymentArtifacts''
             = Some CleanupPackageSecrets"
    by auto
  from r1 r2 c1 c2 show ?thesis by blast
qed

section \<open>Cleanup\<close>



section \<open>The parameter store client\<close>

text \<open>
  C3. \<^verbatim>\<open>getParameterFromSsm\<close> sends exactly one request, the \<^verbatim>\<open>getParameter\<close>
  operation of \<^verbatim>\<open>SSM\<close> for the name, with \<^verbatim>\<open>WithDecryption\<close> false and
  \<^verbatim>\<open>useCache\<close> true, and changes nothing else. When the backend answers with a
  response object, the result is its \<^verbatim>\<open>Parameter\<close>. When the backend fails with an
  error object whose \<^verbatim>\<open>statusCode\<close> is 400, the result is \<^verbatim>\<open>undefined\<close>
  (absent). When it fails with an error object with any other status, the result is the
  host's error built from the \<^verbatim>\<open>message\<close> of the backend's error.
\<close>

theorem getParameterFromSsm_contract:
  "ssm_request name =
     \<lparr>service = ''SSM'', operation = ''getParameter'', Name = name,
      WithDecryption = False, useCache = True\<rparr>
   \<and> snd (getParameterFromSsm name this) = this\<lparr>requests := requests this @ [ssm_request name]\<rparr>
   \<and> (\<forall>response. aws_request this (ssm_request name) = Resolved response \<and> \<not> nullish response \<longrightarrow>
         fst (getParameterFromSsm name this) = Inr (prop_of response ''Parameter''))
   \<and> (\<forall>err. aws_request this (ssm_request name) = Rejected err \<and> \<not> nullish err
            \<and> prop_of err ''statusCode'' = JNum 400 \<longrightarrow>
         fst (getParameterFromSsm name this) = Inr JUndefined)
   \<and> (\<forall>err. aws_request this (ssm_request name) = Rejected err \<and> \<not> nullish err
            \<and> prop_of err ''statusCode'' \<noteq> JNum 400 \<longrightarrow>
         fst (getParameterFromSsm name this) = Inl (ServerlessError (prop_of err ''message'')))"
  by (simp add: getParameterFromSsm_def ssm_request_def ssm_settle_def ssm_catch_def get_prop_def)

text \<open>
  Witness for C3: a parameter the example backend knows, one it reports as not found and
  one on which it fails with status 500.
\<close>

theorem getParameterFromSsm_contract_witness:
  "aws_request (example_plugin JUndefined None) (ssm_request (JStr ''DB_PASSWORD'')) =
     Resolved (JObj [(''Parameter'',
       JObj [(''Value'', JStr ''s3cr3t''),
             (''ARN'', JStr ''arn:aws:ssm:eu-west-1:1:parameter/DB_PASSWORD'')])])
   \<and> fst (getParameterFromSsm (JStr ''DB_PASSWORD'') (example_plugin JUndefined None)) =
       Inr (JObj [(''Value'', JStr ''s3cr3t''),
                  (''ARN'', JStr ''arn:aws:ssm:eu-west-1:1:parameter/DB_PASSWORD'')])
   \<and> aws_request (example_plugin JUndefined None) (ssm_request (JStr ''MISSING'')) =
       Rejected (JObj [(''statusCode'', JNum 400), (''message'', JStr ''ParameterNotFound'')])
   \<and> fst (getParameterFromSsm (JStr ''MISSING'') (example_plugin JUndefined None)) = Inr JUndefined
   \<and> aws_request (example_plugin JUndefined None) (ssm_request (JStr ''BROKEN'')) =
       Rejected (JObj [(''statusCode'', JNum 500), (''message'', JStr ''Internal failure'')])
   \<and> fst (getParameterFromSsm (JStr ''BROKEN'') (example_plugin JUndefined None)) =
       Inl (ServerlessError (JStr ''Internal failure''))"
  using getParameterFromSsm_contract [of "JStr ''DB_PASSWORD''" "example_plugin JUndefined None"]
        getParameterFromSsm_contract [of "JStr ''MISSING''" "example_plugin JUndefined None"]
        getParameterFromSsm_contract [of "JStr ''BROKEN''" "example_plugin JUndefined None"]
  by (simp add: example_plugin_def example_backend_def ssm_request_def nullish_def prop_of_def)

section \<open>Reading the configuration\<close>

lemma constructor_example_world:
  "constructor (example_world cfg g) None = Inr (example_plugin cfg g)"
  by (simp add: constructor_def readParams_def example_world_def example_plugin_def)

lemma secretBaker_field_cong:
  "service_custom a = service_custom b \<Longrightarrow> global_custom a = global_custom b \<Longrightarrow>
   secretBaker_field a field = secretBaker_field b field"
  by (simp add: secretBaker_field_def split: sum.splits)

lemma secretBaker_field_other:
  "secretBaker_field this f1 = Inr d \<Longrightarrow> \<exists>d'. secretBaker_field this f2 = Inr d'"
  by (auto simp: secretBaker_field_def get_prop_def split: if_splits sum.splits option.splits)

lemma secretBaker_field_no_global:
  "truthy (service_custom this) \<Longrightarrow> truthy (prop_of (service_custom this) ''secretBaker'') \<Longrightarrow>
   global_custom this = None \<Longrightarrow>
   secretBaker_field this field = Inl (ReferenceError ''custom is not defined'')"
  by (auto simp: secretBaker_field_def truthy_not_nullish)

lemma secretBaker_field_global:
  "truthy (service_custom this) \<Longrightarrow> truthy (prop_of (service_custom this) ''secretBaker'') \<Longrightarrow>
   global_custom this = Some custom \<Longrightarrow> \<not> nullish custom \<Longrightarrow>
   \<not> nullish (prop_of custom ''secretBaker'') \<Longrightarrow>
   secretBaker_field this field = Inr (prop_of (prop_of custom ''secretBaker'') field)"
  by (auto simp: secretBaker_field_def truthy_not_nullish)

lemma getSecretsConfig_throws:
  "secretBaker_field this ''secrets'' = Inl e \<Longrightarrow> getSecretsConfig this = (Inl e, this)"
  by (simp add: getSecretsConfig_def)

lemma getSecretsConfig_fst:
  assumes "secretBaker_field this ''secrets'' = Inr d"
  shows "fst (getSecretsConfig this) = normalize_secrets (if truthy d then d else JArr [])"
proof -
  from secretBaker_field_other [OF assms, of "''filePath''"]
  obtain f where "secretBaker_field this ''filePath'' = Inr f" by blast
  with assms show ?thesis by (simp add: getSecretsConfig_def Let_def)
qed

lemma getSecretsConfig_snd:
  "secretBaker_field this ''filePath'' = Inr f \<Longrightarrow> secretBaker_field this ''secrets'' = Inr d \<Longrightarrow>
   snd (getSecretsConfig this) = this\<lparr>secretsFile := (if truthy f then f else secretsFile this)\<rparr>"
  by (simp add: getSecretsConfig_def Let_def)

lemma normalize_secrets_list:
  "normalize_secrets (JArr (map JStr xs)) =
     Inr (map (\<lambda>x. JObj [(''name'', JStr x), (''path'', JStr x)]) xs)"
  by (simp add: normalize_secrets_def typeof_def comp_def)

lemma normalize_secrets_mapping:
  "normalize_secrets (JObj entries) =
     Inr (map (\<lambda>(name, path). JObj [(''name'', JStr name), (''path'', path)]) entries)"
  by (simp add: normalize_secrets_def)

lemma normalize_secrets_pass_through:
  "\<exists>refs. normalize_secrets (JArr items) = Inr refs \<and> length refs = length items
     \<and> (\<forall>i < length items. typeof (items ! i) \<noteq> ''string'' \<longrightarrow> refs ! i = items ! i)"
  by (simp add: normalize_secrets_def)

lemma normalize_secrets_unexpected:
  "truthy d \<Longrightarrow> \<not> isArray d \<Longrightarrow> typeof d \<noteq> ''object'' \<Longrightarrow>
   normalize_secrets d =
     Inl (ServerlessError (JStr ''Secret Baker configuration contained an unexpected value.''))"
  by (cases d) (simp_all add: normalize_secrets_def isArray_def typeof_def)

lemma writeSecretToFile_config_error:
  assumes "fst (getSecretsConfig this) = Inl e"
  shows "fst (writeSecretToFile this) = Inl e"
    and "requests (snd (writeSecretToFile this)) = requests this"
    and "files (snd (writeSecretToFile this)) = files this"
    and "package_include (snd (writeSecretToFile this)) = package_include this"
proof -
  obtain this1 where g: "getSecretsConfig this = (Inl e, this1)"
    using assms by (cases "getSecretsConfig this") auto
  then have w: "writeSecretToFile this = (Inl e, this1)" by (simp add: writeSecretToFile_def)
  from g have "this1 = snd (getSecretsConfig this)" by simp
  then have f: "requests this1 = requests this" "files this1 = files this"
    "package_include this1 = package_include this"
    by (simp_all add: getSecretsConfig_frame)
  from w f show "fst (writeSecretToFile this) = Inl e"
    and "requests (snd (writeSecretToFile this)) = requests this"
    and "files (snd (writeSecretToFile this)) = files this"
    and "package_include (snd (writeSecretToFile this)) = package_include this"
    by simp_all
qed

text \<open>The state in which \<^verbatim>\<open>packageSecrets\<close> calls \<^verbatim>\<open>writeSecretToFile\<close>.\<close>

lemma getSecretsConfig_fst_cong:
  "service_custom a = service_custom b \<Longrightarrow> global_custom a = global_custom b \<Longrightarrow>
   fst (getSecretsConfig a) = fst (getSecretsConfig b)"
proof -
  assume sc: "service_custom a = service_custom b" and gc: "global_custom a = global_custom b"
  have "\<And>field. secretBaker_field a field = secretBaker_field b field"
    using sc gc by (rule secretBaker_field_cong)
  then show ?thesis
    by (simp add: getSecretsConfig_def Let_def split: sum.splits)
qed

lemma packageSecrets_error:
  assumes "fst (writeSecretToFile
             (this\<lparr>cli_log := cli_log this @ [''Serverless Secrets beginning packaging process''],
                   package_include := Some (case package_include this of None \<Rightarrow> [] | Some inc \<Rightarrow> inc)\<rparr>))
           = Inl e"
  shows "packageSecrets this =
           (Inl e, snd (writeSecretToFile
             (this\<lparr>cli_log := cli_log this @ [''Serverless Secrets beginning packaging process''],
                   package_include := Some (case package_include this of None \<Rightarrow> [] | Some inc \<Rightarrow> inc)\<rparr>)))"
  using assms by (auto simp: packageSecrets_def Let_def split: prod.splits sum.splits)

lemma secretBaker_field_example:
  "secretBaker_field (example_plugin (secretBaker_config d) (Some (secretBaker_config d))) ''secrets''
     = Inr d"
  by (simp add: secretBaker_field_def example_plugin_def secretBaker_config_def)

section \<open>Normalisation of the declaration\<close>

text \<open>
  When line 60 reads the declaration, the method returns its normalisation
  (\<open>getSecretsConfig_fst\<close>), and the normalisation of a list of strings and of a mapping
  is what the specification asks for (\<open>normalize_secrets_list\<close>,
  \<open>normalize_secrets_mapping\<close>, \<open>normalize_secrets_pass_through\<close>). But line 60 reads
  the declaration through the free identifier \<^verbatim>\<open>custom\<close>, and in a process without
  such a global variable the method throws as soon as the service's block has a
  \<^verbatim>\<open>secretBaker\<close> entry (\<open>secretBaker_field_no_global\<close>).
\<close>

text \<open>
  C4, at a failing input. The service declares the list \<^verbatim>\<open>["DB_PASSWORD"]\<close>, or the
  mapping \<^verbatim>\<open>{DB_PASSWORD: "/prod/db/password"}\<close>, and no global \<^verbatim>\<open>custom\<close>
  exists: \<^verbatim>\<open>getSecretsConfig\<close> throws a \<open>ReferenceError\<close>, where the normalisation of
  the declaration is the list with the one reference that C4 describes.
\<close>

theorem getSecretsConfig_declaration_ReferenceError:
  "fst (getSecretsConfig (example_plugin (secretBaker_config (JArr [JStr ''DB_PASSWORD''])) None))
     = Inl (ReferenceError ''custom is not defined'')
   \<and> normalize_secrets (JArr [JStr ''DB_PASSWORD''])
     = Inr [JObj [(''name'', JStr ''DB_PASSWORD''), (''path'', JStr ''DB_PASSWORD'')]]
   \<and> fst (getSecretsConfig (example_plugin
            (secretBaker_config (JObj [(''DB_PASSWORD'', JStr ''/prod/db/password'')])) None))
     = Inl (ReferenceError ''custom is not defined'')
   \<and> normalize_secrets (JObj [(''DB_PASSWORD'', JStr ''/prod/db/password'')])
     = Inr [JObj [(''name'', JStr ''DB_PASSWORD''), (''path'', JStr ''/prod/db/password'')]]"
  by (simp add: getSecretsConfig_def secretBaker_field_def example_plugin_def
        secretBaker_config_def normalize_secrets_def typeof_def)

text \<open>
  C6, at a failing input. The service configures the path \<^verbatim>\<open>my-secrets.json\<close> and no
  global \<^verbatim>\<open>custom\<close> exists: \<^verbatim>\<open>getSecretsConfig\<close> throws on line 60, before the
  assignment of line 62, and the output path of the run stays the default name.
\<close>

theorem getSecretsConfig_filePath_ReferenceError:
  "getSecretsConfig (example_plugin
       (secretBaker_config_file (JArr [JStr ''DB_PASSWORD'']) (JStr ''my-secrets.json'')) None)
     = (Inl (ReferenceError ''custom is not defined''),
        example_plugin
          (secretBaker_config_file (JArr [JStr ''DB_PASSWORD'']) (JStr ''my-secrets.json'')) None)
   \<and> secretsFile (example_plugin
          (secretBaker_config_file (JArr [JStr ''DB_PASSWORD'']) (JStr ''my-secrets.json'')) None)
     = JStr ''secret-baker-secrets.json''
   \<and> fst (packageSecrets (example_plugin
          (secretBaker_config_file (JArr [JStr ''DB_PASSWORD'']) (JStr ''my-secrets.json'')) None))
     = Inl (ReferenceError ''custom is not defined'')
   \<and> secretsFile (snd (packageSecrets (example_plugin
          (secretBaker_config_file (JArr [JStr ''DB_PASSWORD'']) (JStr ''my-secrets.json'')) None)))
     = JStr ''secret-baker-secrets.json''"
  by (simp add: packageSecrets_def writeSecretToFile_def getSecretsConfig_def secretBaker_field_def
        example_plugin_def secretBaker_config_file_def defaultSecretsFile_def Let_def)

text \<open>
  C10, at a failing input. The service declares a list with the object
  \<^verbatim>\<open>{name: "DB_PASSWORD", path: "/prod/db/password"}\<close> and no global \<^verbatim>\<open>custom\<close>
  exists: \<^verbatim>\<open>getSecretsConfig\<close> throws a \<open>ReferenceError\<close>, where the normalisation
  of the list returns the object as it is.
\<close>

theorem getSecretsConfig_pass_through_ReferenceError:
  "fst (getSecretsConfig (example_plugin
          (secretBaker_config
             (JArr [JObj [(''name'', JStr ''DB_PASSWORD''), (''path'', JStr ''/prod/db/password'')]]))
          None))
     = Inl (ReferenceError ''custom is not defined'')
   \<and> normalize_secrets
         (JArr [JObj [(''name'', JStr ''DB_PASSWORD''), (''path'', JStr ''/prod/db/password'')]])
     = Inr [JObj [(''name'', JStr ''DB_PASSWORD''), (''path'', JStr ''/prod/db/password'')]]"
  by (simp add: getSecretsConfig_def secretBaker_field_def example_plugin_def
        secretBaker_config_def normalize_secrets_def typeof_def)

section \<open>A declaration of an unexpected shape\<close>

text \<open>
  C5, as amended. When line 60 reads the value \<open>d\<close> as the declaration and \<open>d\<close> is
  truthy and neither an array nor an object (a nonempty string, a number other than 0,
  \<^verbatim>\<open>true\<close>), \<^verbatim>\<open>getSecretsConfig\<close> throws the host's error with the
  configuration message, and so does \<^verbatim>\<open>packageSecrets\<close>, without sending a request
  and without changing the disk. When \<open>d\<close> is falsy (the empty string, 0,
  \<^verbatim>\<open>false\<close>, \<^verbatim>\<open>null\<close>, \<^verbatim>\<open>undefined\<close>), line 60 replaces it by the empty
  list and \<^verbatim>\<open>getSecretsConfig\<close> returns no reference.
\<close>

theorem getSecretsConfig_unexpected_value:
  "(\<forall>d. secretBaker_field this ''secrets'' = Inr d \<and> truthy d \<and> \<not> isArray d \<and> typeof d \<noteq> ''object'' \<longrightarrow>
        fst (getSecretsConfig this) =
          Inl (ServerlessError (JStr ''Secret Baker configuration contained an unexpected value.''))
      \<and> fst (packageSecrets this) =
          Inl (ServerlessError (JStr ''Secret Baker configuration contained an unexpected value.''))
      \<and> requests (snd (packageSecrets this)) = requests this
      \<and> files (snd (packageSecrets this)) = files this)
   \<and> (\<forall>d. secretBaker_field this ''secrets'' = Inr d \<and> \<not> truthy d \<longrightarrow>
        fst (getSecretsConfig this) = Inr [])"
proof (intro conjI allI impI)
  fix d
  assume a: "secretBaker_field this ''secrets'' = Inr d \<and> truthy d \<and> \<not> isArray d \<and> typeof d \<noteq> ''object''"
  let ?e = "ServerlessError (JStr ''Secret Baker configuration contained an unexpected value.'')"
  let ?this2 = "this\<lparr>cli_log := cli_log this @ [''Serverless Secrets beginning packaging process''],
                     package_include := Some (case package_include this of None \<Rightarrow> [] | Some inc \<Rightarrow> inc)\<rparr>"
  from a show g: "fst (getSecretsConfig this) = Inl ?e"
    by (simp add: getSecretsConfig_fst normalize_secrets_unexpected)
  have "fst (getSecretsConfig ?this2) = fst (getSecretsConfig this)"
    by (rule getSecretsConfig_fst_cong) simp_all
  with g have g2: "fst (getSecretsConfig ?this2) = Inl ?e" by simp
  have p: "packageSecrets this = (Inl ?e, snd (writeSecretToFile ?this2))"
    by (rule packageSecrets_error) (rule writeSecretToFile_config_error(1) [OF g2])
  then show "fst (packageSecrets this) = Inl ?e" by simp
  from p show "requests (snd (packageSecrets this)) = requests this"
    by (simp add: writeSecretToFile_config_error(2) [OF g2])
  from p show "files (snd (packageSecrets this)) = files this"
    by (simp add: writeSecretToFile_config_error(3) [OF g2])
next
  fix d
  assume "secretBaker_field this ''secrets'' = Inr d \<and> \<not> truthy d"
  then show "fst (getSecretsConfig this) = Inr []"
    by (simp add: getSecretsConfig_fst normalize_secrets_def)
qed

text \<open>
  Witness for C5: the declaration is the string \<^verbatim>\<open>"DB_PASSWORD"\<close>, then
  \<^verbatim>\<open>false\<close>; the identifier \<^verbatim>\<open>custom\<close> is bound to the service's block.
\<close>

theorem getSecretsConfig_unexpected_value_witness:
  "secretBaker_field
       (example_plugin (secretBaker_config (JStr ''DB_PASSWORD''))
          (Some (secretBaker_config (JStr ''DB_PASSWORD'')))) ''secrets''
     = Inr (JStr ''DB_PASSWORD'')
   \<and> truthy (JStr ''DB_PASSWORD'') \<and> \<not> isArray (JStr ''DB_PASSWORD'')
   \<and> typeof (JStr ''DB_PASSWORD'') \<noteq> ''object''
   \<and> fst (packageSecrets
            (example_plugin (secretBaker_config (JStr ''DB_PASSWORD''))
               (Some (secretBaker_config (JStr ''DB_PASSWORD'')))))
     = Inl (ServerlessError (JStr ''Secret Baker configuration contained an unexpected value.''))
   \<and> requests (snd (packageSecrets
            (example_plugin (secretBaker_config (JStr ''DB_PASSWORD''))
               (Some (secretBaker_config (JStr ''DB_PASSWORD'')))))) = []
   \<and> secretBaker_field
       (example_plugin (secretBaker_config (JBool False))
          (Some (secretBaker_config (JBool False)))) ''secrets''
     = Inr (JBool False)
   \<and> \<not> truthy (JBool False)
   \<and> fst (getSecretsConfig
            (example_plugin (secretBaker_config (JBool False))
               (Some (secretBaker_config (JBool False))))) = Inr []"
  using getSecretsConfig_unexpected_value
          [of "example_plugin (secretBaker_config (JStr ''DB_PASSWORD''))
                 (Some (secretBaker_config (JStr ''DB_PASSWORD'')))"]
        getSecretsConfig_unexpected_value
          [of "example_plugin (secretBaker_config (JBool False))
                 (Some (secretBaker_config (JBool False)))"]
  by (simp add: secretBaker_field_example isArray_def typeof_def)
     (simp add: example_plugin_def)

text \<open>
  Counterexample to C5 as stated: the declarations \<open>0\<close>, a number, and the empty
  string are neither a sequence nor a mapping, and \<^verbatim>\<open>getSecretsConfig\<close> returns the
  empty list for them (the identifier \<^verbatim>\<open>custom\<close> is bound to the service's block,
  so that line 60 reads the declaration).
\<close>

theorem getSecretsConfig_falsy_declaration_counterexample:
  "typeof (JNum 0) = ''number'' \<and> \<not> isArray (JNum 0)
   \<and> getSecretsConfig
        (example_plugin (secretBaker_config (JNum 0)) (Some (secretBaker_config (JNum 0))))
     = (Inr [], example_plugin (secretBaker_config (JNum 0)) (Some (secretBaker_config (JNum 0))))
   \<and> typeof (JStr '''') = ''string'' \<and> \<not> isArray (JStr '''')
   \<and> getSecretsConfig
        (example_plugin (secretBaker_config (JStr '''')) (Some (secretBaker_config (JStr ''''))))
     = (Inr [], example_plugin (secretBaker_config (JStr '''')) (Some (secretBaker_config (JStr ''''))))"
  by (simp add: typeof_def isArray_def getSecretsConfig_def secretBaker_field_def
        example_plugin_def secretBaker_config_def normalize_secrets_def)

section \<open>The table of secrets\<close>
















section \<open>The loop\<close>









section \<open>Materialisation\<close>








section \<open>All or nothing\<close>



section \<open>Full success\<close>




end
